theory Spec2Isabelle
  imports Complex_Main
begin

section \<open>JavaScript values\<close>

text \<open>
  A JavaScript number is NaN, a finite value kept as a rational, or one of the two
  infinities. The program never does arithmetic on numbers: it parses them, compares a
  quantity with zero and passes them on. The one place where the rounding of IEEE
  doubles matters is \<open>parseInt\<close>, which rounds the integer it has read (below).
\<close>

datatype number = NaN | Finite rat | PosInfinity | NegInfinity

definition isNaN :: "number \<Rightarrow> bool" where
  "isNaN n = (case n of NaN \<Rightarrow> True | _ \<Rightarrow> False)"

text \<open>\<open>a <= b\<close> on numbers: false as soon as one side is NaN.\<close>

definition num_le :: "number \<Rightarrow> number \<Rightarrow> bool" where
  "num_le a b =
     (case a of
        NaN \<Rightarrow> False
      | NegInfinity \<Rightarrow> (case b of NaN \<Rightarrow> False | _ \<Rightarrow> True)
      | PosInfinity \<Rightarrow> (case b of PosInfinity \<Rightarrow> True | _ \<Rightarrow> False)
      | Finite x \<Rightarrow>
          (case b of NaN \<Rightarrow> False | NegInfinity \<Rightarrow> False | PosInfinity \<Rightarrow> True
           | Finite y \<Rightarrow> x \<le> y))"

text \<open>
  The double nearest to an integer. \<open>bitLength n\<close> is the number of binary digits of
  \<open>n\<close>. An integer of more than 53 binary digits is rounded to 53 of them, to nearest
  and on a tie to the even one; a magnitude that rounds to \<open>2 ^ 1024\<close> or more is an
  infinity.
\<close>

fun bitLength :: "nat \<Rightarrow> nat" where
  "bitLength n = (if n = 0 then 0 else bitLength (n div 2) + 1)"

declare bitLength.simps [simp del]

definition roundMagnitude :: "nat \<Rightarrow> nat" where
  "roundMagnitude n =
     (let e = bitLength n - 53;
          q = n div 2 ^ e;
          r = n mod 2 ^ e
      in (if 2 ^ e < 2 * r \<or> (2 * r = 2 ^ e \<and> odd q) then q + 1 else q) * 2 ^ e)"

definition toDouble :: "int \<Rightarrow> number" where
  "toDouble i =
     (let m = roundMagnitude (nat \<bar>i\<bar>)
      in if 2 ^ 1024 \<le> m then (if i < 0 then NegInfinity else PosInfinity)
         else Finite (of_int (if i < 0 then - int m else int m)))"

text \<open>
  The values that travel through the client: what \<open>JSON.parse\<close> gives, plus
  \<open>undefined\<close>. An object is the list of its entries in insertion order.
\<close>

datatype jsvalue =
    JUndefined
  | JNull
  | JBool bool
  | JNum number
  | JStr string
  | JArr "jsvalue list"
  | JObj "(string \<times> jsvalue) list"

text \<open>
  What a call can throw: a \<open>TypeError\<close> (reading a property of \<open>null\<close> or
  \<open>undefined\<close>), or the rejection of the HTTP transport, which carries
  \<open>error.response\<close> (\<open>JUndefined\<close> when no response was received).
\<close>

datatype error = TypeError | RequestFailed jsvalue

text \<open>
  \<open>obj[k] = v\<close> on an object: an existing entry is overwritten in place, a new key is
  appended.
\<close>

fun assign :: "(string \<times> jsvalue) list \<Rightarrow> string \<Rightarrow> jsvalue \<Rightarrow> (string \<times> jsvalue) list" where
  "assign [] k v = [(k, v)]"
| "assign ((k', v') # kvs) k v =
     (if k' = k then (k, v) # kvs else (k', v') # assign kvs k v)"

text \<open>
  \<open>v.k\<close> for the own data properties the client reads (\<open>account\<close>, \<open>positions\<close>,
  \<open>orders\<close>, \<open>stopLoss\<close>, \<open>stopLosses\<close>, \<open>histories\<close>, \<open>metrics\<close>): a TypeError on
  \<open>null\<close> and \<open>undefined\<close>, \<open>undefined\<close> for a missing key; a later entry of the
  same key wins, as a later assignment does.
\<close>

fun get_prop :: "jsvalue \<Rightarrow> string \<Rightarrow> error + jsvalue" where
  "get_prop JUndefined k = Inl TypeError"
| "get_prop JNull k = Inl TypeError"
| "get_prop (JObj kvs) k =
     Inr (case map_of (rev kvs) k of None \<Rightarrow> JUndefined | Some v \<Rightarrow> v)"
| "get_prop v k = Inr JUndefined"

section \<open>Strings\<close>


definition toUpperChar :: "char \<Rightarrow> char" where
  "toUpperChar c =
     (let n = (of_char c :: nat) in if 97 \<le> n \<and> n \<le> 122 then char_of (n - 32) else c)"

definition toUpperCase :: "string \<Rightarrow> string" where
  "toUpperCase s = map toUpperChar s"

text \<open>
  The white space and line terminators that \<open>trim\<close> and \<open>parseInt\<close> skip, in ASCII:
  TAB, LF, VT, FF, CR and SPACE.
\<close>

definition isWhiteSpace :: "char \<Rightarrow> bool" where
  "isWhiteSpace c = (of_char c \<in> {9::nat, 10, 11, 12, 13, 32})"

definition trim :: "string \<Rightarrow> string" where
  "trim s = rev (dropWhile isWhiteSpace (rev (dropWhile isWhiteSpace s)))"

definition isDigit :: "char \<Rightarrow> bool" where
  "isDigit c = (48 \<le> (of_char c :: nat) \<and> (of_char c :: nat) \<le> 57)"

text \<open>The value of a string of decimal digits, most significant digit first.\<close>

definition digitsValue :: "string \<Rightarrow> int" where
  "digitsValue ds = foldl (\<lambda>acc c. 10 * acc + (int (of_char c) - 48)) 0 ds"

text \<open>
  \<open>parseInt(s, 10)\<close>: skip leading white space, read an optional sign, take the longest
  prefix of decimal digits; NaN when that prefix is empty, else the double nearest to
  the signed value. Whatever follows the digits is ignored. (The model rounds the exact
  value; the language also lets an implementation read the digits after the twentieth
  as zeros before it rounds.)
\<close>

definition parseInt :: "string \<Rightarrow> number" where
  "parseInt s =
     (let S = dropWhile isWhiteSpace s;
          sign = (case S of c # _ \<Rightarrow> if c = CHR ''-'' then (-1::int) else 1 | [] \<Rightarrow> 1);
          S' = (case S of c # cs \<Rightarrow> if c = CHR ''+'' \<or> c = CHR ''-'' then cs else S
                | [] \<Rightarrow> S);
          Z = takeWhile isDigit S'
      in if Z = [] then NaN else toDouble (sign * digitsValue Z))"

section \<open>Data Mapper\<close>

text \<open>
  Modelled from the spec: \<open>toCamelCase\<close> is imported from \<open>./utils\<close>, which is not
  among the source files. The spec (4.1) says: every object key in snake_case form
  (\<open>words_joined_by_underscore\<close>) is rewritten to camelCase
  (\<open>wordsJoinedByUpperFirstLetter\<close>), recursively, also inside arrays of objects;
  arrays keep order and length; scalars and string values pass through unchanged; a key
  with no underscore is unchanged; any other input passes through unchanged.

  \<open>splitWords\<close> cuts a key at its underscores; \<open>snakeToCamel\<close> keeps the first word and
  joins the others after it, each with its first letter in upper case. Entries whose
  keys become equal are all kept (the spec does not say which one wins).
\<close>

fun splitWords :: "string \<Rightarrow> string list" where
  "splitWords [] = [[]]"
| "splitWords (c # cs) =
     (if c = CHR ''_'' then [] # splitWords cs
      else (case splitWords cs of w # ws \<Rightarrow> (c # w) # ws | [] \<Rightarrow> [[c]]))"

fun upperFirst :: "string \<Rightarrow> string" where
  "upperFirst [] = []"
| "upperFirst (c # cs) = toUpperChar c # cs"

definition snakeToCamel :: "string \<Rightarrow> string" where
  "snakeToCamel k =
     (case splitWords k of [] \<Rightarrow> [] | w # ws \<Rightarrow> w @ concat (map upperFirst ws))"

fun toCamelCase :: "jsvalue \<Rightarrow> jsvalue" where
  "toCamelCase (JArr xs) = JArr (map toCamelCase xs)"
| "toCamelCase (JObj kvs) = JObj (map (\<lambda>(k, v). (snakeToCamel k, toCamelCase v)) kvs)"
| "toCamelCase v = v"

section \<open>Type definitions of the Trading Client\<close>

text \<open>
  The interfaces of the client, field by field. \<open>T | null\<close> is an option (\<open>None\<close> is
  \<open>null\<close>); an optional field (\<open>price?: number\<close>) is an option too (\<open>None\<close> is
  \<open>undefined\<close>). The field \<open>id\<close> is written \<open>id'\<close>. Several interfaces share field
  names, so a field is written with its record: \<open>StopLoss.stockCode sl\<close>.
\<close>

record Account =
  totalBalance :: number
  cashBalance :: number
  marketValue :: number
  profitLoss :: number
  profitLossPct :: number

record Position =
  id' :: number
  stockCode :: string
  stockName :: "string option"
  quantity :: number
  avgCost :: number
  currentPrice :: "number option"
  marketValue :: "number option"
  profitLoss :: "number option"
  profitLossPct :: "number option"
  holdingDays :: number
  createdAt :: "string option"
  updatedAt :: "string option"

record Order =
  id' :: number
  stockCode :: string
  stockName :: "string option"
  orderType :: string
  quantity :: number
  price :: "number option"
  amount :: number
  status :: string
  filledQuantity :: number
  filledPrice :: "number option"
  filledAmount :: "number option"
  commission :: number
  stampDuty :: number
  transferFee :: number
  totalFee :: number
  errorMessage :: "string option"
  createdAt :: "string option"
  updatedAt :: "string option"

text \<open>\<open>orderType: 'buy' | 'sell'\<close> of a request, with the strings it stands for.\<close>

datatype OrderType = Buy | Sell

fun orderTypeString :: "OrderType \<Rightarrow> string" where
  "orderTypeString Buy = ''buy''"
| "orderTypeString Sell = ''sell''"

record PlaceOrderRequest =
  stockCode :: string
  orderType :: OrderType
  quantity :: number
  price :: "number option"

record PlaceOrderResponse =
  orderId :: number
  status :: string
  message :: string

record StopLoss =
  id' :: number
  stockCode :: string
  stockName :: "string option"
  takeProfitPrice :: "number option"
  takeProfitPct :: "number option"
  stopLossPrice :: "number option"
  stopLossPct :: "number option"
  isActive :: bool
  triggeredType :: "string option"
  triggeredAt :: "string option"
  createdAt :: "string option"
  updatedAt :: "string option"

record SetStopLossRequest =
  stockCode :: string
  takeProfitPrice :: "number option"
  takeProfitPct :: "number option"
  stopLossPrice :: "number option"
  stopLossPct :: "number option"

record SetStopLossResponse =
  success :: bool
  message :: string
  stopLoss :: "StopLoss option"

record DeleteStopLossResponse =
  success :: bool
  message :: string

record AccountHistory =
  id' :: number
  totalBalance :: number
  cashBalance :: number
  marketValue :: number
  profitLoss :: number
  profitLossPct :: number
  dailyReturnPct :: number
  cumulativeReturnPct :: number
  recordDate :: string
  createdAt :: "string option"

record PerformanceMetrics =
  totalReturnPct :: number
  annualizedReturnPct :: number
  maxDrawdownPct :: number
  winRatePct :: number
  totalTrades :: number
  profitableTrades :: number
  averageHoldingDays :: number

section \<open>Trading Client\<close>

datatype http_method = GET | POST | DELETE

text \<open>
  One call of \<open>apiClient\<close>: the HTTP verb, the path, the query parameters of the config
  argument and the body (\<open>None\<close> when the call passes none).
\<close>

record http_request =
  verb :: http_method
  url :: string
  params :: "(string \<times> jsvalue) list"
  body :: "(string \<times> jsvalue) list option"

text \<open>
  \<open>apiClient\<close> (\<open>./index\<close>) is not among the source files: it is a parameter, a function
  from the request to \<open>response.data\<close> or to the rejection.
\<close>

type_synonym transport = "http_request \<Rightarrow> error + jsvalue"

text \<open>
  Every operation of \<open>tradingApi\<close> sends exactly one request and then works on
  \<open>response.data\<close>. An operation yields the request it sent, together with what the
  promise settles to.
\<close>

type_synonym call_result = "http_request \<times> (error + jsvalue)"

definition await_response ::
    "transport \<Rightarrow> http_request \<Rightarrow> (jsvalue \<Rightarrow> error + jsvalue) \<Rightarrow> call_result" where
  "await_response http req k =
     (req, case http req of Inl e \<Rightarrow> Inl e | Inr d \<Rightarrow> k d)"

definition getAccount :: "transport \<Rightarrow> call_result" where
  "getAccount http =
     await_response http
       \<lparr>verb = GET, url = ''/api/v1/trading/account'', params = [], body = None\<rparr>
       (\<lambda>d. get_prop (toCamelCase d) ''account'')"

definition getPositions :: "transport \<Rightarrow> call_result" where
  "getPositions http =
     await_response http
       \<lparr>verb = GET, url = ''/api/v1/trading/positions'', params = [], body = None\<rparr>
       (\<lambda>d. get_prop (toCamelCase d) ''positions'')"

text \<open>\<open>limit: number = 50\<close>: the argument is \<open>None\<close> when the caller passes none.\<close>

definition getOrders :: "transport \<Rightarrow> number option \<Rightarrow> call_result" where
  "getOrders http limit_arg =
     (let limit = (case limit_arg of None \<Rightarrow> Finite 50 | Some l \<Rightarrow> l)
      in await_response http
           \<lparr>verb = GET, url = ''/api/v1/trading/orders'',
            params = [(''limit'', JNum limit)], body = None\<rparr>
           (\<lambda>d. get_prop (toCamelCase d) ''orders''))"

definition placeOrder :: "transport \<Rightarrow> PlaceOrderRequest \<Rightarrow> call_result" where
  "placeOrder http request =
     (let requestData = [(''stock_code'', JStr (PlaceOrderRequest.stockCode request)),
                         (''order_type'', JStr (orderTypeString (PlaceOrderRequest.orderType request))),
                         (''quantity'', JNum (PlaceOrderRequest.quantity request))];
          requestData = (case PlaceOrderRequest.price request of
                           Some p \<Rightarrow> assign requestData ''price'' (JNum p)
                         | None \<Rightarrow> requestData)
      in await_response http
           \<lparr>verb = POST, url = ''/api/v1/trading/order'', params = [],
            body = Some requestData\<rparr>
           (\<lambda>d. Inr (toCamelCase d)))"

definition setStopLoss :: "transport \<Rightarrow> SetStopLossRequest \<Rightarrow> call_result" where
  "setStopLoss http request =
     (let requestData = [(''stock_code'', JStr (SetStopLossRequest.stockCode request))];
          requestData = (case SetStopLossRequest.takeProfitPrice request of
                           Some v \<Rightarrow> assign requestData ''take_profit_price'' (JNum v)
                         | None \<Rightarrow> requestData);
          requestData = (case SetStopLossRequest.takeProfitPct request of
                           Some v \<Rightarrow> assign requestData ''take_profit_pct'' (JNum v)
                         | None \<Rightarrow> requestData);
          requestData = (case SetStopLossRequest.stopLossPrice request of
                           Some v \<Rightarrow> assign requestData ''stop_loss_price'' (JNum v)
                         | None \<Rightarrow> requestData);
          requestData = (case SetStopLossRequest.stopLossPct request of
                           Some v \<Rightarrow> assign requestData ''stop_loss_pct'' (JNum v)
                         | None \<Rightarrow> requestData)
      in await_response http
           \<lparr>verb = POST, url = ''/api/v1/trading/stop-loss'', params = [],
            body = Some requestData\<rparr>
           (\<lambda>d. Inr (toCamelCase d)))"

definition getStopLoss :: "transport \<Rightarrow> string \<Rightarrow> call_result" where
  "getStopLoss http code =
     await_response http
       \<lparr>verb = GET, url = ''/api/v1/trading/stop-loss/'' @ code, params = [],
        body = None\<rparr>
       (\<lambda>d. get_prop (toCamelCase d) ''stopLoss'')"

definition getAllStopLoss :: "transport \<Rightarrow> call_result" where
  "getAllStopLoss http =
     await_response http
       \<lparr>verb = GET, url = ''/api/v1/trading/stop-loss'', params = [], body = None\<rparr>
       (\<lambda>d. get_prop (toCamelCase d) ''stopLosses'')"

definition deleteStopLoss :: "transport \<Rightarrow> string \<Rightarrow> call_result" where
  "deleteStopLoss http code =
     await_response http
       \<lparr>verb = DELETE, url = ''/api/v1/trading/stop-loss/'' @ code, params = [],
        body = None\<rparr>
       (\<lambda>d. Inr (toCamelCase d))"

text \<open>\<open>days: number = 30\<close>.\<close>

definition getAccountHistory :: "transport \<Rightarrow> number option \<Rightarrow> call_result" where
  "getAccountHistory http days_arg =
     (let days = (case days_arg of None \<Rightarrow> Finite 30 | Some d \<Rightarrow> d)
      in await_response http
           \<lparr>verb = GET, url = ''/api/v1/trading/account-history'',
            params = [(''days'', JNum days)], body = None\<rparr>
           (\<lambda>d. get_prop (toCamelCase d) ''histories''))"

definition getPerformanceMetrics :: "transport \<Rightarrow> call_result" where
  "getPerformanceMetrics http =
     await_response http
       \<lparr>verb = GET, url = ''/api/v1/trading/performance-metrics'', params = [],
        body = None\<rparr>
       (\<lambda>d. get_prop (toCamelCase d) ''metrics'')"

section \<open>Dashboard view: \<open>TradingPage\<close>\<close>

text \<open>
  The view sees \<open>tradingApi\<close> through its declared signature: each operation settles to
  a value of its declared result type, or rejects. What the backend answers to the calls
  of one handler run is a record of these outcomes, a parameter of the handlers.
  (\<open>getStopLoss\<close> is not called from the view.)
\<close>

record tradingApi_results =
  getAccount_result :: "error + Account"
  getPositions_result :: "error + Position list"
  getOrders_result :: "number option \<Rightarrow> error + Order list"
  placeOrder_result :: "PlaceOrderRequest \<Rightarrow> error + PlaceOrderResponse"
  setStopLoss_result :: "SetStopLossRequest \<Rightarrow> error + SetStopLossResponse"
  getAllStopLoss_result :: "error + StopLoss list"
  deleteStopLoss_result :: "string \<Rightarrow> error + DeleteStopLossResponse"
  getAccountHistory_result :: "number option \<Rightarrow> error + AccountHistory list"
  getPerformanceMetrics_result :: "error + PerformanceMetrics"

text \<open>A call of \<open>tradingApi\<close>, with its arguments.\<close>

datatype api_call =
    GetAccount
  | GetPositions
  | GetOrders "number option"
  | PlaceOrder PlaceOrderRequest
  | SetStopLoss SetStopLossRequest
  | GetStopLoss string
  | GetAllStopLoss
  | DeleteStopLoss string
  | GetAccountHistory "number option"
  | GetPerformanceMetrics

text \<open>
  What a handler does besides setting state: it calls the client, writes a label to
  \<open>console.error\<close> (the logged error object is left out) and starts the timer that
  clears the message (the delay in milliseconds; the passing of time is not modelled).
\<close>

datatype event = Api api_call | ConsoleError string | SetTimeout nat

text \<open>
  The texts shown to the user. The fixed texts of the page are Chinese string literals;
  each is a constructor here: \<open>LoadDataFailed\<close> (line 62), \<open>EnterCodeAndQuantity\<close>
  (lines 73, 109), \<open>EnterValidQuantity\<close> (lines 79, 115), \<open>BuyFailed\<close> (line 101),
  \<open>SellFailed\<close> (line 137), \<open>StopLossDeleted\<close> (line 220), \<open>StopLossSaved\<close>
  (line 223), \<open>SaveFailed\<close> (line 230). \<open>FromResult\<close> is the \<open>message\<close> of a
  response, \<open>Detail\<close> the value found in the error's detail payload.
\<close>

datatype message_text =
    LoadDataFailed
  | EnterCodeAndQuantity
  | EnterValidQuantity
  | BuyFailed
  | SellFailed
  | StopLossDeleted
  | StopLossSaved
  | SaveFailed
  | FromResult string
  | Detail jsvalue

datatype message_type = MsgSuccess | MsgError

text \<open>The state variables of the component, in the order of their \<open>useState\<close> calls.\<close>

record view_state =
  account :: "Account option"
  positions :: "Position list"
  orders :: "Order list"
  stockCode :: string
  quantity :: string
  loading :: bool
  message :: "(message_type \<times> message_text) option"
  stopLosses :: "string \<rightharpoonup> StopLoss"
  showStopLossModal :: bool
  selectedStockCode :: string
  takeProfitPrice :: string
  takeProfitPct :: string
  stopLossPrice :: string
  stopLossPct :: string
  savingStopLoss :: bool
  accountHistory :: "AccountHistory list"
  performanceMetrics :: "PerformanceMetrics option"

definition initialState :: view_state where
  "initialState =
     \<lparr>account = None, positions = [], orders = [], stockCode = [], quantity = [],
      loading = False, message = None, stopLosses = Map.empty, showStopLossModal = False,
      selectedStockCode = [], takeProfitPrice = [], takeProfitPct = [],
      stopLossPrice = [], stopLossPct = [], savingStopLoss = False,
      accountHistory = [], performanceMetrics = None\<rparr>"

text \<open>
  A handler run threads the events it has produced so far and the state as the setters
  have left it. A handler reads the state variables of its closure: the state at the
  moment it is invoked.
\<close>

type_synonym world = "event list \<times> view_state"

definition emit :: "event \<Rightarrow> world \<Rightarrow> world" where
  "emit e w = (fst w @ [e], snd w)"

definition setState :: "(view_state \<Rightarrow> view_state) \<Rightarrow> world \<Rightarrow> world" where
  "setState f w = (fst w, f (snd w))"

fun api_calls :: "event list \<Rightarrow> api_call list" where
  "api_calls [] = []"
| "api_calls (Api c # es) = c # api_calls es"
| "api_calls (e # es) = api_calls es"

definition showMessage :: "message_type \<Rightarrow> message_text \<Rightarrow> world \<Rightarrow> world" where
  "showMessage ty text w =
     emit (SetTimeout 3000) (setState (\<lambda>s. s\<lparr>message := Some (ty, text)\<rparr>) w)"

text \<open>
  \<open>Promise.all\<close>: the values in order when every promise fulfils, a rejection as soon
  as one rejects. The reason it rejects with is that of the promise that rejects first in
  time; here it is the first in the array, and no handler looks at it.
\<close>

definition both :: "error + 'a \<Rightarrow> error + 'b \<Rightarrow> error + ('a \<times> 'b)" where
  "both p q =
     (case p of Inl e \<Rightarrow> Inl e
      | Inr x \<Rightarrow> (case q of Inl e \<Rightarrow> Inl e | Inr y \<Rightarrow> Inr (x, y)))"

text \<open>
  \<open>loadData\<close>: the six calls are made while the array is built, before anything is
  awaited; the setters run only when \<open>Promise.all\<close> fulfils.
\<close>

definition loadData :: "tradingApi_results \<Rightarrow> world \<Rightarrow> world" where
  "loadData api w =
     (let w = emit (Api GetAccount) w;
          w = emit (Api GetPositions) w;
          w = emit (Api (GetOrders None)) w;
          w = emit (Api GetAllStopLoss) w;
          w = emit (Api (GetAccountHistory (Some (Finite 30)))) w;
          w = emit (Api GetPerformanceMetrics) w
      in case both (getAccount_result api)
               (both (getPositions_result api)
                 (both (getOrders_result api None)
                   (both (getAllStopLoss_result api)
                     (both (getAccountHistory_result api (Some (Finite 30)))
                           (getPerformanceMetrics_result api))))) of
           Inr (accountData, positionsData, ordersData, stopLossData, historyData,
                metricsData) \<Rightarrow>
             (let w = setState (\<lambda>s. s\<lparr>account := Some accountData\<rparr>) w;
                  w = setState (\<lambda>s. s\<lparr>positions := positionsData\<rparr>) w;
                  w = setState (\<lambda>s. s\<lparr>orders := ordersData\<rparr>) w;
                  w = setState (\<lambda>s. s\<lparr>accountHistory := historyData\<rparr>) w;
                  w = setState (\<lambda>s. s\<lparr>performanceMetrics := Some metricsData\<rparr>) w;
                  stopLossMap = fold (\<lambda>sl m. m(StopLoss.stockCode sl \<mapsto> sl))
                                  stopLossData Map.empty
              in setState (\<lambda>s. s\<lparr>stopLosses := stopLossMap\<rparr>) w)
         | Inl e \<Rightarrow>
             showMessage MsgError LoadDataFailed
               (emit (ConsoleError ''Failed to load data:'') w))"

text \<open>\<open>useEffect(() => { loadData(); }, [])\<close>: the effect that runs on mount.\<close>

definition onMount :: "tradingApi_results \<Rightarrow> view_state \<Rightarrow> world" where
  "onMount api s = loadData api ([], s)"

text \<open>
  \<open>error.response?.data?.detail?.message || fallback\<close>. \<open>v?.k\<close> is \<open>undefined\<close>
  when \<open>v\<close> is \<open>null\<close> or \<open>undefined\<close>; a TypeError has no \<open>response\<close>.
\<close>

definition opt_prop :: "jsvalue \<Rightarrow> string \<Rightarrow> jsvalue" where
  "opt_prop v k = (case get_prop v k of Inl e \<Rightarrow> JUndefined | Inr x \<Rightarrow> x)"

fun error_response :: "error \<Rightarrow> jsvalue" where
  "error_response TypeError = JUndefined"
| "error_response (RequestFailed r) = r"

fun truthy :: "jsvalue \<Rightarrow> bool" where
  "truthy JUndefined = False"
| "truthy JNull = False"
| "truthy (JBool b) = b"
| "truthy (JNum NaN) = False"
| "truthy (JNum (Finite x)) = (x \<noteq> 0)"
| "truthy (JNum PosInfinity) = True"
| "truthy (JNum NegInfinity) = True"
| "truthy (JStr s) = (s \<noteq> [])"
| "truthy (JArr xs) = True"
| "truthy (JObj kvs) = True"

definition errorText :: "error \<Rightarrow> message_text \<Rightarrow> message_text" where
  "errorText e fallback =
     (let m = opt_prop (opt_prop (opt_prop (error_response e) ''data'') ''detail'')
                ''message''
      in if truthy m then Detail m else fallback)"

definition handleBuy :: "tradingApi_results \<Rightarrow> world \<Rightarrow> world" where
  "handleBuy api w =
     (let s = snd w in
      if trim (view_state.stockCode s) = [] \<or> trim (view_state.quantity s) = []
      then showMessage MsgError EnterCodeAndQuantity w
      else
        let qty = parseInt (view_state.quantity s) in
        if isNaN qty \<or> num_le qty (Finite 0)
        then showMessage MsgError EnterValidQuantity w
        else
          let w = setState (\<lambda>s. s\<lparr>loading := True\<rparr>) w;
              request = \<lparr>PlaceOrderRequest.stockCode =
                           toUpperCase (trim (view_state.stockCode s)),
                         orderType = Buy, quantity = qty, price = None\<rparr>;
              w = emit (Api (PlaceOrder request)) w;
              w = (case placeOrder_result api request of
                     Inr result \<Rightarrow>
                       if PlaceOrderResponse.status result = ''filled''
                       then
                         (let w = showMessage MsgSuccess
                                    (FromResult (PlaceOrderResponse.message result)) w;
                              w = setState (\<lambda>s. s\<lparr>view_state.stockCode := []\<rparr>) w;
                              w = setState (\<lambda>s. s\<lparr>view_state.quantity := []\<rparr>) w
                          in loadData api w)
                       else showMessage MsgError
                              (FromResult (PlaceOrderResponse.message result)) w
                   | Inl e \<Rightarrow>
                       showMessage MsgError (errorText e BuyFailed)
                         (emit (ConsoleError ''Buy failed:'') w))
          in setState (\<lambda>s. s\<lparr>loading := False\<rparr>) w)"

definition handleSell :: "tradingApi_results \<Rightarrow> world \<Rightarrow> world" where
  "handleSell api w =
     (let s = snd w in
      if trim (view_state.stockCode s) = [] \<or> trim (view_state.quantity s) = []
      then showMessage MsgError EnterCodeAndQuantity w
      else
        let qty = parseInt (view_state.quantity s) in
        if isNaN qty \<or> num_le qty (Finite 0)
        then showMessage MsgError EnterValidQuantity w
        else
          let w = setState (\<lambda>s. s\<lparr>loading := True\<rparr>) w;
              request = \<lparr>PlaceOrderRequest.stockCode =
                           toUpperCase (trim (view_state.stockCode s)),
                         orderType = Sell, quantity = qty, price = None\<rparr>;
              w = emit (Api (PlaceOrder request)) w;
              w = (case placeOrder_result api request of
                     Inr result \<Rightarrow>
                       if PlaceOrderResponse.status result = ''filled''
                       then
                         (let w = showMessage MsgSuccess
                                    (FromResult (PlaceOrderResponse.message result)) w;
                              w = setState (\<lambda>s. s\<lparr>view_state.stockCode := []\<rparr>) w;
                              w = setState (\<lambda>s. s\<lparr>view_state.quantity := []\<rparr>) w
                          in loadData api w)
                       else showMessage MsgError
                              (FromResult (PlaceOrderResponse.message result)) w
                   | Inl e \<Rightarrow>
                       showMessage MsgError (errorText e SellFailed)
                         (emit (ConsoleError ''Sell failed:'') w))
          in setState (\<lambda>s. s\<lparr>loading := False\<rparr>) w)"

definition closeStopLossModal :: "world \<Rightarrow> world" where
  "closeStopLossModal w =
     (let w = setState (\<lambda>s. s\<lparr>showStopLossModal := False\<rparr>) w;
          w = setState (\<lambda>s. s\<lparr>selectedStockCode := []\<rparr>) w;
          w = setState (\<lambda>s. s\<lparr>view_state.takeProfitPrice := []\<rparr>) w;
          w = setState (\<lambda>s. s\<lparr>view_state.takeProfitPct := []\<rparr>) w;
          w = setState (\<lambda>s. s\<lparr>view_state.stopLossPrice := []\<rparr>) w
      in setState (\<lambda>s. s\<lparr>view_state.stopLossPct := []\<rparr>) w)"

text \<open>
  \<open>handleSaveStopLoss\<close>. \<open>parseFloat\<close> is the built-in of the language, a parameter
  here; a non-empty string is truthy. The request object starts with \<open>stockCode\<close> alone
  and gets a field for each input that is not empty.
\<close>

definition handleSaveStopLoss ::
    "(string \<Rightarrow> number) \<Rightarrow> tradingApi_results \<Rightarrow> world \<Rightarrow> world" where
  "handleSaveStopLoss parseFloat api w =
     (let s = snd w in
      if selectedStockCode s = [] then w
      else
        let w = setState (\<lambda>s. s\<lparr>savingStopLoss := True\<rparr>) w;
            request = \<lparr>SetStopLossRequest.stockCode = selectedStockCode s,
                       takeProfitPrice = None, takeProfitPct = None,
                       stopLossPrice = None, stopLossPct = None\<rparr>;
            request = (if view_state.takeProfitPrice s \<noteq> []
                       then request\<lparr>SetStopLossRequest.takeProfitPrice :=
                                      Some (parseFloat (view_state.takeProfitPrice s))\<rparr>
                       else request);
            request = (if view_state.takeProfitPct s \<noteq> []
                       then request\<lparr>SetStopLossRequest.takeProfitPct :=
                                      Some (parseFloat (view_state.takeProfitPct s))\<rparr>
                       else request);
            request = (if view_state.stopLossPrice s \<noteq> []
                       then request\<lparr>SetStopLossRequest.stopLossPrice :=
                                      Some (parseFloat (view_state.stopLossPrice s))\<rparr>
                       else request);
            request = (if view_state.stopLossPct s \<noteq> []
                       then request\<lparr>SetStopLossRequest.stopLossPct :=
                                      Some (parseFloat (view_state.stopLossPct s))\<rparr>
                       else request);
            saved =
              (if view_state.takeProfitPrice s = [] \<and> view_state.takeProfitPct s = []
                  \<and> view_state.stopLossPrice s = [] \<and> view_state.stopLossPct s = []
               then
                 (let w = emit (Api (DeleteStopLoss (selectedStockCode s))) w
                  in case deleteStopLoss_result api (selectedStockCode s) of
                       Inr r \<Rightarrow> Inr (showMessage MsgSuccess StopLossDeleted w)
                     | Inl e \<Rightarrow> Inl (e, w))
               else
                 (let w = emit (Api (SetStopLoss request)) w
                  in case setStopLoss_result api request of
                       Inr r \<Rightarrow> Inr (showMessage MsgSuccess StopLossSaved w)
                     | Inl e \<Rightarrow> Inl (e, w)));
            w = (case saved of
                   Inr w \<Rightarrow> closeStopLossModal (loadData api w)
                 | Inl (e, w) \<Rightarrow>
                     showMessage MsgError (errorText e SaveFailed)
                       (emit (ConsoleError ''Failed to save stop loss:'') w))
        in setState (\<lambda>s. s\<lparr>savingStopLoss := False\<rparr>) w)"

section \<open>Observing a handler run\<close>

text \<open>
  The calls of \<open>tradingApi\<close> that \<open>loadData\<close> makes, the calls that change something
  on the backend, and when such a call has succeeded for the handler that made it: a
  \<open>placeOrder\<close> that fulfils with status \<open>filled\<close>, a \<open>setStopLoss\<close> or
  \<open>deleteStopLoss\<close> that fulfils.
\<close>

definition readSet :: "api_call list" where
  "readSet = [GetAccount, GetPositions, GetOrders None, GetAllStopLoss,
              GetAccountHistory (Some (Finite 30)), GetPerformanceMetrics]"

fun isMutation :: "api_call \<Rightarrow> bool" where
  "isMutation (PlaceOrder r) = True"
| "isMutation (SetStopLoss r) = True"
| "isMutation (DeleteStopLoss c) = True"
| "isMutation c = False"

fun succeeded :: "tradingApi_results \<Rightarrow> api_call \<Rightarrow> bool" where
  "succeeded api (PlaceOrder r) =
     (case placeOrder_result api r of
        Inr result \<Rightarrow> PlaceOrderResponse.status result = ''filled''
      | Inl e \<Rightarrow> False)"
| "succeeded api (SetStopLoss r) = (\<not> isl (setStopLoss_result api r))"
| "succeeded api (DeleteStopLoss c) = (\<not> isl (deleteStopLoss_result api c))"
| "succeeded api c = False"


fun isGetStopLoss :: "api_call \<Rightarrow> bool" where
  "isGetStopLoss (GetStopLoss c) = True"
| "isGetStopLoss c = False"

text \<open>A \<open>setStopLoss\<close> call whose request carries none of the four optional fields.\<close>

fun emptySetStopLoss :: "api_call \<Rightarrow> bool" where
  "emptySetStopLoss (SetStopLoss r) =
     (SetStopLossRequest.takeProfitPrice r = None \<and> SetStopLossRequest.takeProfitPct r = None
      \<and> SetStopLossRequest.stopLossPrice r = None \<and> SetStopLossRequest.stopLossPct r = None)"
| "emptySetStopLoss c = False"


text \<open>
  The part of the state that \<open>loadData\<close> fills: what the view shows of the backend.
\<close>

definition loadedData ::
    "view_state \<Rightarrow> Account option \<times> Position list \<times> Order list \<times> (string \<rightharpoonup> StopLoss)
       \<times> AccountHistory list \<times> PerformanceMetrics option" where
  "loadedData s =
     (account s, positions s, orders s, stopLosses s, accountHistory s, performanceMetrics s)"

section \<open>Sample backends and states\<close>

text \<open>
  A backend on which every call fulfils and every order is filled; one on which
  \<open>getOrders\<close> rejects; one that answers an order with a status other than \<open>filled\<close>.
  A state with the order form filled in; one whose quantity is a one followed by four
  hundred zeros; the stop-loss dialog open on a stock with its four inputs empty. A
  transport that answers every request with the envelope \<open>{stop_loss: null}\<close>, and one
  that rejects every request with no response.
\<close>

definition sampleAccount :: Account where
  "sampleAccount = \<lparr>Account.totalBalance = Finite 100000, cashBalance = Finite 40000,
     marketValue = Finite 60000, profitLoss = Finite 0, profitLossPct = Finite 0\<rparr>"

definition sampleMetrics :: PerformanceMetrics where
  "sampleMetrics = \<lparr>totalReturnPct = Finite 0, annualizedReturnPct = Finite 0,
     maxDrawdownPct = Finite 0, winRatePct = Finite 0, totalTrades = Finite 0,
     profitableTrades = Finite 0, averageHoldingDays = Finite 0\<rparr>"

definition sampleApi :: tradingApi_results where
  "sampleApi =
     \<lparr>getAccount_result = Inr sampleAccount,
      getPositions_result = Inr [],
      getOrders_result = (\<lambda>limit. Inr []),
      placeOrder_result = (\<lambda>r. Inr \<lparr>orderId = Finite 1, status = ''filled'',
                                     message = ''done''\<rparr>),
      setStopLoss_result = (\<lambda>r. Inr \<lparr>SetStopLossResponse.success = True,
                                      message = ''saved'', stopLoss = None\<rparr>),
      getAllStopLoss_result = Inr [],
      deleteStopLoss_result = (\<lambda>c. Inr \<lparr>DeleteStopLossResponse.success = True,
                                         message = ''deleted''\<rparr>),
      getAccountHistory_result = (\<lambda>days. Inr []),
      getPerformanceMetrics_result = Inr sampleMetrics\<rparr>"

definition ordersFailApi :: tradingApi_results where
  "ordersFailApi = sampleApi\<lparr>getOrders_result := (\<lambda>limit. Inl (RequestFailed JUndefined))\<rparr>"

definition rejectedOrderApi :: tradingApi_results where
  "rejectedOrderApi =
     sampleApi\<lparr>placeOrder_result :=
       (\<lambda>r. Inr \<lparr>orderId = Finite 2, status = ''rejected'', message = ''no funds''\<rparr>)\<rparr>"

definition orderFormState :: view_state where
  "orderFormState = initialState\<lparr>view_state.stockCode := '' aapl '',
                                  view_state.quantity := ''100''\<rparr>"


definition clearedModalState :: view_state where
  "clearedModalState = initialState\<lparr>showStopLossModal := True, selectedStockCode := ''AAPL''\<rparr>"

definition nullStopLossTransport :: transport where
  "nullStopLossTransport req = Inr (JObj [(''stop_loss'', JNull)])"

definition offlineTransport :: transport where
  "offlineTransport req = Inl (RequestFailed JUndefined)"

section \<open>Facts about strings and keys\<close>

lemma toUpperChar_not_underscore: "c \<noteq> CHR ''_'' \<Longrightarrow> toUpperChar c \<noteq> CHR ''_''"
proof
  assume c: "c \<noteq> CHR ''_''" and u: "toUpperChar c = CHR ''_''"
  show False
  proof (cases "97 \<le> (of_char c :: nat) \<and> (of_char c :: nat) \<le> 122")
    case True
    then have "toUpperChar c = char_of ((of_char c :: nat) - 32)"
      by (simp add: toUpperChar_def Let_def)
    with u have "(of_char (char_of ((of_char c :: nat) - 32)) :: nat) = of_char (CHR ''_'')"
      by simp
    with True show False by simp arith
  next
    case False
    then have "toUpperChar c = c" by (auto simp add: toUpperChar_def Let_def)
    with c u show False by simp
  qed
qed

lemma upperFirst_no_underscore: "CHR ''_'' \<notin> set w \<Longrightarrow> CHR ''_'' \<notin> set (upperFirst w)"
  by (cases w) (auto dest: toUpperChar_not_underscore [OF not_sym])

lemma splitWords_no_underscore: "w \<in> set (splitWords k) \<Longrightarrow> CHR ''_'' \<notin> set w"
  by (induction k arbitrary: w) (auto split: list.splits if_splits)

lemma splitWords_plain: "CHR ''_'' \<notin> set k \<Longrightarrow> splitWords k = [k]"
  by (induction k) (auto split: list.splits)

lemma snakeToCamel_no_underscore: "CHR ''_'' \<notin> set (snakeToCamel k)"
proof (cases "splitWords k")
  case Nil
  then show ?thesis by (simp add: snakeToCamel_def)
next
  case (Cons w ws)
  then have "\<forall>x \<in> set (w # ws). CHR ''_'' \<notin> set x"
    using splitWords_no_underscore [of _ k] by simp
  then have "CHR ''_'' \<notin> set w" and "\<forall>x \<in> set ws. CHR ''_'' \<notin> set (upperFirst x)"
    by (simp_all add: upperFirst_no_underscore)
  with Cons show ?thesis by (auto simp add: snakeToCamel_def)
qed

lemma snakeToCamel_plain: "CHR ''_'' \<notin> set k \<Longrightarrow> snakeToCamel k = k"
  by (simp add: snakeToCamel_def splitWords_plain)

lemma snakeToCamel_idem: "snakeToCamel (snakeToCamel k) = snakeToCamel k"
  by (rule snakeToCamel_plain) (rule snakeToCamel_no_underscore)

lemma snakeToCamel_stop_loss: "snakeToCamel ''stop_loss'' = ''stopLoss''"
  by code_simp





section \<open>Facts about rounding and \<open>parseInt\<close>\<close>















section \<open>Facts about handler runs\<close>

lemma fst_emit: "fst (emit e w) = fst w @ [e]"
  by (simp add: emit_def)

lemma snd_emit: "snd (emit e w) = snd w"
  by (simp add: emit_def)

lemma fst_setState: "fst (setState f w) = fst w"
  by (simp add: setState_def)

lemma snd_setState: "snd (setState f w) = f (snd w)"
  by (simp add: setState_def)

lemma fst_showMessage: "fst (showMessage ty text w) = fst w @ [SetTimeout 3000]"
  by (simp add: showMessage_def fst_emit fst_setState)

lemma snd_showMessage: "snd (showMessage ty text w) = (snd w)\<lparr>message := Some (ty, text)\<rparr>"
  by (simp add: showMessage_def snd_emit snd_setState)

lemma fst_closeStopLossModal: "fst (closeStopLossModal w) = fst w"
  by (simp add: closeStopLossModal_def Let_def fst_setState)

lemma api_calls_append: "api_calls (xs @ ys) = api_calls xs @ api_calls ys"
  by (induction xs rule: api_calls.induct) simp_all

lemma loadData_calls: "api_calls (fst (loadData api w)) = api_calls (fst w) @ readSet"
  by (simp add: loadData_def Let_def fst_emit fst_setState fst_showMessage api_calls_append
      readSet_def split: sum.splits prod.splits)

lemma both_rejects: "isl p \<or> isl q \<Longrightarrow> isl (both p q)"
  by (auto simp add: both_def split: sum.splits)

lemma loadData_rejected:
  assumes "isl (both (getAccount_result api)
               (both (getPositions_result api)
                 (both (getOrders_result api None)
                   (both (getAllStopLoss_result api)
                     (both (getAccountHistory_result api (Some (Finite 30)))
                           (getPerformanceMetrics_result api))))))"
  shows "snd (loadData api w) = (snd w)\<lparr>message := Some (MsgError, LoadDataFailed)\<rparr>"
  using assms
  by (auto simp add: loadData_def Let_def snd_emit snd_showMessage split: sum.splits)


lemma handleBuy_calls:
  "api_calls (fst (handleBuy api ([], s))) =
     (if trim (view_state.stockCode s) = [] \<or> trim (view_state.quantity s) = []
         \<or> isNaN (parseInt (view_state.quantity s))
         \<or> num_le (parseInt (view_state.quantity s)) (Finite 0)
      then []
      else
        (let request = \<lparr>PlaceOrderRequest.stockCode =
                          toUpperCase (trim (view_state.stockCode s)),
                        orderType = Buy, quantity = parseInt (view_state.quantity s),
                        price = None\<rparr>
         in PlaceOrder request # (if succeeded api (PlaceOrder request) then readSet else [])))"
  by (simp add: handleBuy_def Let_def fst_emit fst_setState fst_showMessage api_calls_append
      loadData_calls split: sum.splits)

lemma handleSell_calls:
  "api_calls (fst (handleSell api ([], s))) =
     (if trim (view_state.stockCode s) = [] \<or> trim (view_state.quantity s) = []
         \<or> isNaN (parseInt (view_state.quantity s))
         \<or> num_le (parseInt (view_state.quantity s)) (Finite 0)
      then []
      else
        (let request = \<lparr>PlaceOrderRequest.stockCode =
                          toUpperCase (trim (view_state.stockCode s)),
                        orderType = Sell, quantity = parseInt (view_state.quantity s),
                        price = None\<rparr>
         in PlaceOrder request # (if succeeded api (PlaceOrder request) then readSet else [])))"
  by (simp add: handleSell_def Let_def fst_emit fst_setState fst_showMessage api_calls_append
      loadData_calls split: sum.splits)



lemma case_sum_nested:
  "(case (case x of Inl e \<Rightarrow> Inl (f e) | Inr r \<Rightarrow> Inr (g r)) of
      Inl a \<Rightarrow> h a | Inr b \<Rightarrow> k b) =
   (case x of Inl e \<Rightarrow> h (f e) | Inr r \<Rightarrow> k (g r))"
  by (cases x) simp_all

lemma handleSaveStopLoss_calls:
  "api_calls (fst (handleSaveStopLoss parseFloat api ([], s))) =
     (if selectedStockCode s = [] then []
      else
        (let c = (if view_state.takeProfitPrice s = [] \<and> view_state.takeProfitPct s = []
                     \<and> view_state.stopLossPrice s = [] \<and> view_state.stopLossPct s = []
                  then DeleteStopLoss (selectedStockCode s)
                  else SetStopLoss
                    \<lparr>SetStopLossRequest.stockCode = selectedStockCode s,
                     takeProfitPrice = (if view_state.takeProfitPrice s \<noteq> []
                        then Some (parseFloat (view_state.takeProfitPrice s)) else None),
                     takeProfitPct = (if view_state.takeProfitPct s \<noteq> []
                        then Some (parseFloat (view_state.takeProfitPct s)) else None),
                     stopLossPrice = (if view_state.stopLossPrice s \<noteq> []
                        then Some (parseFloat (view_state.stopLossPrice s)) else None),
                     stopLossPct = (if view_state.stopLossPct s \<noteq> []
                        then Some (parseFloat (view_state.stopLossPct s)) else None)\<rparr>)
         in c # (if succeeded api c then readSet else [])))"
proof (cases "selectedStockCode s = []")
  case True
  then show ?thesis by (simp add: handleSaveStopLoss_def)
next
  case False
  show ?thesis
    by (cases "view_state.takeProfitPrice s = []"; cases "view_state.takeProfitPct s = []";
        cases "view_state.stopLossPrice s = []"; cases "view_state.stopLossPct s = []";
        cases "deleteStopLoss_result api (selectedStockCode s)")
       (simp_all add: False handleSaveStopLoss_def Let_def fst_emit fst_setState
          fst_showMessage fst_closeStopLossModal api_calls_append loadData_calls
          case_sum_nested split: sum.splits)
qed

lemma loadedData_loadData:
  "loadedData (snd (loadData api w)) =
     (case both (getAccount_result api)
               (both (getPositions_result api)
                 (both (getOrders_result api None)
                   (both (getAllStopLoss_result api)
                     (both (getAccountHistory_result api (Some (Finite 30)))
                           (getPerformanceMetrics_result api))))) of
        Inr (accountData, positionsData, ordersData, stopLossData, historyData,
             metricsData) \<Rightarrow>
          (Some accountData, positionsData, ordersData,
           fold (\<lambda>sl m. m(StopLoss.stockCode sl \<mapsto> sl)) stopLossData Map.empty,
           historyData, Some metricsData)
      | Inl e \<Rightarrow> loadedData (snd w))"
  by (simp add: loadData_def Let_def loadedData_def snd_emit snd_setState snd_showMessage
      split: sum.splits prod.splits)

lemma loadedData_closeStopLossModal:
  "loadedData (snd (closeStopLossModal w)) = loadedData (snd w)"
  by (simp add: closeStopLossModal_def Let_def snd_setState loadedData_def)

lemma loadedData_emit: "loadedData (snd (emit e w)) = loadedData (snd w)"
  by (simp add: snd_emit)

lemma loadedData_showMessage: "loadedData (snd (showMessage ty text w)) = loadedData (snd w)"
  by (simp add: snd_showMessage loadedData_def)

lemma loadedData_simps:
  "loadedData (s\<lparr>loading := b\<rparr>) = loadedData s"
  "loadedData (s\<lparr>savingStopLoss := b\<rparr>) = loadedData s"
  "loadedData (s\<lparr>view_state.stockCode := x\<rparr>) = loadedData s"
  "loadedData (s\<lparr>view_state.quantity := x\<rparr>) = loadedData s"
  by (simp_all add: loadedData_def)

lemma handleBuy_data:
  "loadedData (snd (handleBuy api ([], s))) =
     (case api_calls (fst (handleBuy api ([], s))) of
        [] \<Rightarrow> loadedData s
      | c # cs \<Rightarrow> if succeeded api c then loadedData (snd (loadData api ([], s)))
                  else loadedData s)"
  by (simp add: handleBuy_calls Let_def)
     (simp add: handleBuy_def Let_def snd_setState loadedData_loadData loadedData_emit
        loadedData_showMessage loadedData_simps split: sum.splits)


lemma handleSell_data:
  "loadedData (snd (handleSell api ([], s))) =
     (case api_calls (fst (handleSell api ([], s))) of
        [] \<Rightarrow> loadedData s
      | c # cs \<Rightarrow> if succeeded api c then loadedData (snd (loadData api ([], s)))
                  else loadedData s)"
  by (simp add: handleSell_calls Let_def)
     (simp add: handleSell_def Let_def snd_setState loadedData_loadData loadedData_emit
        loadedData_showMessage loadedData_simps split: sum.splits)

lemma handleSaveStopLoss_data:
  "loadedData (snd (handleSaveStopLoss parseFloat api ([], s))) =
     (case api_calls (fst (handleSaveStopLoss parseFloat api ([], s))) of
        [] \<Rightarrow> loadedData s
      | c # cs \<Rightarrow> if succeeded api c then loadedData (snd (loadData api ([], s)))
                  else loadedData s)"
proof (cases "selectedStockCode s = []")
  case True
  then show ?thesis by (simp add: handleSaveStopLoss_def)
next
  case False
  show ?thesis
    by (cases "view_state.takeProfitPrice s = []"; cases "view_state.takeProfitPct s = []";
        cases "view_state.stopLossPrice s = []"; cases "view_state.stopLossPct s = []";
        cases "deleteStopLoss_result api (selectedStockCode s)")
       (simp_all add: False handleSaveStopLoss_calls,
        simp_all add: False handleSaveStopLoss_def Let_def snd_setState loadedData_loadData
          loadedData_emit loadedData_showMessage loadedData_closeStopLossModal
          loadedData_simps case_sum_nested split: sum.splits)
qed

section \<open>Evaluating the samples\<close>

lemma trim_sample_code: "trim '' aapl '' = ''aapl''"
  by code_simp

lemma toUpperCase_sample_code: "toUpperCase ''aapl'' = ''AAPL''"
  by code_simp

lemma trim_sample_quantity: "trim ''100'' = ''100''"
  by code_simp



lemma parseInt_sample_quantity: "parseInt ''100'' = Finite 100"
  by (simp add: parseInt_def Let_def isWhiteSpace_def isDigit_def digitsValue_def
      toDouble_def roundMagnitude_def bitLength.simps)

lemma parseInt_sample_rounds: "parseInt ''9007199254740993'' = Finite 9007199254740992"
  by (simp add: parseInt_def Let_def isWhiteSpace_def isDigit_def digitsValue_def
      toDouble_def roundMagnitude_def bitLength.simps)






lemma parseInt_empty: "parseInt [] = NaN"
  by (simp add: parseInt_def)

lemma trim_empty: "trim [] = []"
  by (simp add: trim_def)

lemma loadedData_sampleApi:
  "loadedData (snd (loadData sampleApi w)) =
     (Some sampleAccount, [], [], Map.empty, [], Some sampleMetrics)"
  by (simp add: loadedData_loadData sampleApi_def both_def)

lemmas sample_simps =
  sampleApi_def ordersFailApi_def rejectedOrderApi_def orderFormState_def
  clearedModalState_def initialState_def
  trim_sample_code toUpperCase_sample_code trim_sample_quantity parseInt_sample_quantity
  parseInt_empty trim_empty isNaN_def num_le_def readSet_def

section \<open>The claims\<close>

text \<open>
  Claim C1. For every \<open>SetStopLossRequest\<close>, the body that \<open>setStopLoss\<close> sends maps
  \<open>stock_code\<close> to the request's \<open>stockCode\<close>; it has \<open>take_profit_price\<close>,
  \<open>take_profit_pct\<close>, \<open>stop_loss_price\<close>, \<open>stop_loss_pct\<close> exactly when the
  camelCase field of the request is defined, with that field's value; it has no other
  key, and no key twice.
\<close>

theorem setStopLoss_body_fields:
  "\<exists>kvs. body (fst (setStopLoss http r)) = Some kvs
     \<and> map_of kvs ''stock_code'' = Some (JStr (SetStopLossRequest.stockCode r))
     \<and> map_of kvs ''take_profit_price'' = map_option JNum (SetStopLossRequest.takeProfitPrice r)
     \<and> map_of kvs ''take_profit_pct'' = map_option JNum (SetStopLossRequest.takeProfitPct r)
     \<and> map_of kvs ''stop_loss_price'' = map_option JNum (SetStopLossRequest.stopLossPrice r)
     \<and> map_of kvs ''stop_loss_pct'' = map_option JNum (SetStopLossRequest.stopLossPct r)
     \<and> fst ` set kvs \<subseteq> {''stock_code'', ''take_profit_price'', ''take_profit_pct'',
                          ''stop_loss_price'', ''stop_loss_pct''}
     \<and> distinct (map fst kvs)"
  by (cases "SetStopLossRequest.takeProfitPrice r"; cases "SetStopLossRequest.takeProfitPct r";
      cases "SetStopLossRequest.stopLossPrice r"; cases "SetStopLossRequest.stopLossPct r")
     (simp_all add: setStopLoss_def await_response_def Let_def)

text \<open>
  The example of the spec: \<open>setStopLoss({stockCode: "AAPL", stopLossPrice: 90})\<close> sends
  \<open>{stock_code: "AAPL", stop_loss_price: 90}\<close> and nothing else.
\<close>

theorem setStopLoss_body_fields_witness:
  "body (fst (setStopLoss nullStopLossTransport
     \<lparr>SetStopLossRequest.stockCode = ''AAPL'', takeProfitPrice = None, takeProfitPct = None,
      stopLossPrice = Some (Finite 90), stopLossPct = None\<rparr>)) =
   Some [(''stock_code'', JStr ''AAPL''), (''stop_loss_price'', JNum (Finite 90))]"
  using setStopLoss_body_fields [of nullStopLossTransport
     "\<lparr>SetStopLossRequest.stockCode = ''AAPL'', takeProfitPrice = None, takeProfitPct = None,
      stopLossPrice = Some (Finite 90), stopLossPct = None\<rparr>"]
  by (simp add: setStopLoss_def await_response_def Let_def)

text \<open>
  Claim C2. For every \<open>PlaceOrderRequest\<close>, the body that \<open>placeOrder\<close> sends is
  \<open>{stock_code, order_type, quantity}\<close> from the request's \<open>stockCode\<close>, \<open>orderType\<close>
  and \<open>quantity\<close>, plus a \<open>price\<close> key exactly when the request's \<open>price\<close> is defined;
  without a price the keys of the body are the three others alone.
\<close>

theorem placeOrder_body_fields:
  "\<exists>kvs. body (fst (placeOrder http r)) = Some kvs
     \<and> map_of kvs ''stock_code'' = Some (JStr (PlaceOrderRequest.stockCode r))
     \<and> map_of kvs ''order_type'' = Some (JStr (orderTypeString (PlaceOrderRequest.orderType r)))
     \<and> map_of kvs ''quantity'' = Some (JNum (PlaceOrderRequest.quantity r))
     \<and> map_of kvs ''price'' = map_option JNum (PlaceOrderRequest.price r)
     \<and> fst ` set kvs =
         (if PlaceOrderRequest.price r = None then {''stock_code'', ''order_type'', ''quantity''}
          else {''stock_code'', ''order_type'', ''quantity'', ''price''})
     \<and> distinct (map fst kvs)"
  by (cases "PlaceOrderRequest.price r")
     (auto simp add: placeOrder_def await_response_def Let_def)

text \<open>
  The example of the spec: \<open>placeOrder({stockCode: "600519", orderType: "buy",
  quantity: 100})\<close> sends \<open>{stock_code: "600519", order_type: "buy", quantity: 100}\<close>.
\<close>

theorem placeOrder_body_fields_witness:
  "body (fst (placeOrder nullStopLossTransport
     \<lparr>PlaceOrderRequest.stockCode = ''600519'', orderType = Buy, quantity = Finite 100,
      price = None\<rparr>)) =
   Some [(''stock_code'', JStr ''600519''), (''order_type'', JStr ''buy''),
         (''quantity'', JNum (Finite 100))]"
  using placeOrder_body_fields [of nullStopLossTransport
     "\<lparr>PlaceOrderRequest.stockCode = ''600519'', orderType = Buy, quantity = Finite 100,
      price = None\<rparr>"]
  by (simp add: placeOrder_def await_response_def Let_def)

text \<open>
  Claim C3, as the spec states it: on mount the view calls each of the seven read
  operations once, \<open>getStopLoss\<close> among them. It does not: mounted on the sample
  backend, the view makes six calls, and none of them is \<open>getStopLoss\<close>.
\<close>

theorem mount_calls_counterexample:
  "length (api_calls (fst (onMount sampleApi initialState))) = 6
   \<and> filter isGetStopLoss (api_calls (fst (onMount sampleApi initialState))) = []"
  by (simp add: onMount_def loadData_calls readSet_def)

text \<open>
  Claim C3, amended. On mount, \<open>loadData\<close> calls six read operations, once each and in
  this order: \<open>getAccount\<close>, \<open>getPositions\<close>, \<open>getOrders\<close> with no argument,
  \<open>getAllStopLoss\<close>, \<open>getAccountHistory(30)\<close>, \<open>getPerformanceMetrics\<close>. All six are
  made whatever any of them settles to: they are started before \<open>Promise.all\<close> awaits
  them. \<open>getStopLoss\<close> is not called.
\<close>

theorem mount_issues_six_reads:
  "api_calls (fst (onMount api s)) =
     [GetAccount, GetPositions, GetOrders None, GetAllStopLoss,
      GetAccountHistory (Some (Finite 30)), GetPerformanceMetrics]"
  by (simp add: onMount_def loadData_calls readSet_def)

text \<open>
  Claim C4. Whenever one of the read calls of \<open>loadData\<close> rejects, the load fails (the
  view shows the load-failed message) and nothing is committed: \<open>account\<close>,
  \<open>positions\<close>, \<open>orders\<close>, \<open>stopLosses\<close>, \<open>accountHistory\<close> and
  \<open>performanceMetrics\<close> keep the values they had.
\<close>

theorem loadData_all_or_nothing:
  assumes "isl (getAccount_result api) \<or> isl (getPositions_result api)
     \<or> isl (getOrders_result api None) \<or> isl (getAllStopLoss_result api)
     \<or> isl (getAccountHistory_result api (Some (Finite 30)))
     \<or> isl (getPerformanceMetrics_result api)"
  shows "account (snd (loadData api w)) = account (snd w)
     \<and> positions (snd (loadData api w)) = positions (snd w)
     \<and> orders (snd (loadData api w)) = orders (snd w)
     \<and> stopLosses (snd (loadData api w)) = stopLosses (snd w)
     \<and> accountHistory (snd (loadData api w)) = accountHistory (snd w)
     \<and> performanceMetrics (snd (loadData api w)) = performanceMetrics (snd w)
     \<and> message (snd (loadData api w)) = Some (MsgError, LoadDataFailed)"
proof -
  from assms have "isl (both (getAccount_result api)
               (both (getPositions_result api)
                 (both (getOrders_result api None)
                   (both (getAllStopLoss_result api)
                     (both (getAccountHistory_result api (Some (Finite 30)))
                           (getPerformanceMetrics_result api))))))"
    by (auto intro!: both_rejects)
  then show ?thesis by (simp add: loadData_rejected)
qed

text \<open>
  On the backend where only \<open>getOrders\<close> rejects, the account that \<open>getAccount\<close>
  delivered is not committed: \<open>account\<close> stays \<open>null\<close>.
\<close>

theorem loadData_all_or_nothing_witness:
  "isl (getOrders_result ordersFailApi None)
   \<and> \<not> isl (getAccount_result ordersFailApi)
   \<and> account (snd (loadData ordersFailApi ([], initialState))) = None
   \<and> positions (snd (loadData ordersFailApi ([], initialState))) = []
   \<and> orders (snd (loadData ordersFailApi ([], initialState))) = []
   \<and> stopLosses (snd (loadData ordersFailApi ([], initialState))) = Map.empty
   \<and> accountHistory (snd (loadData ordersFailApi ([], initialState))) = []
   \<and> performanceMetrics (snd (loadData ordersFailApi ([], initialState))) = None
   \<and> message (snd (loadData ordersFailApi ([], initialState))) =
       Some (MsgError, LoadDataFailed)"
proof -
  have h: "isl (getOrders_result ordersFailApi None)"
    by (simp add: ordersFailApi_def)
  show ?thesis
    using h loadData_all_or_nothing [of ordersFailApi "([], initialState)"]
    by (simp add: ordersFailApi_def sampleApi_def initialState_def)
qed

text \<open>
  Claim C5, as the spec states it: after any mutating call the view reloads the full read
  set, unconditionally. It does not: when \<open>placeOrder\<close> is answered with a status other
  than \<open>filled\<close>, the buy handler has made the mutating call and makes no read call.
\<close>

theorem unfilled_order_no_reload_counterexample:
  "api_calls (fst (handleBuy rejectedOrderApi ([], orderFormState))) =
     [PlaceOrder \<lparr>PlaceOrderRequest.stockCode = ''AAPL'', orderType = Buy,
                  quantity = Finite 100, price = None\<rparr>]
   \<and> api_calls (fst (handleBuy rejectedOrderApi ([], orderFormState))) \<noteq>
     PlaceOrder \<lparr>PlaceOrderRequest.stockCode = ''AAPL'', orderType = Buy,
                 quantity = Finite 100, price = None\<rparr> # readSet"
  by (simp add: handleBuy_calls sample_simps)

text \<open>
  Claim C5, amended. A run of the buy, sell or save-stop-loss handler makes at most one
  mutating call, and makes it first. After a mutating call that succeeds (\<open>placeOrder\<close>
  fulfilled with status \<open>filled\<close>, \<open>setStopLoss\<close> or \<open>deleteStopLoss\<close> fulfilled) the
  handler reloads the full read set through \<open>loadData\<close>, the six read calls, and the
  loaded data of the state is what \<open>loadData\<close> alone commits: nothing is patched in.
  After a mutating call that does not succeed, and when no call is made, the handler
  makes no read call and leaves the loaded data as it was.
\<close>

theorem reload_after_successful_mutation:
  "(case api_calls (fst (handleBuy api ([], s))) of
      [] \<Rightarrow> loadedData (snd (handleBuy api ([], s))) = loadedData s
    | c # cs \<Rightarrow> isMutation c \<and>
        (if succeeded api c
         then cs = readSet \<and> loadedData (snd (handleBuy api ([], s))) =
                loadedData (snd (loadData api ([], s)))
         else cs = [] \<and> loadedData (snd (handleBuy api ([], s))) = loadedData s))
   \<and> (case api_calls (fst (handleSell api ([], s))) of
      [] \<Rightarrow> loadedData (snd (handleSell api ([], s))) = loadedData s
    | c # cs \<Rightarrow> isMutation c \<and>
        (if succeeded api c
         then cs = readSet \<and> loadedData (snd (handleSell api ([], s))) =
                loadedData (snd (loadData api ([], s)))
         else cs = [] \<and> loadedData (snd (handleSell api ([], s))) = loadedData s))
   \<and> (case api_calls (fst (handleSaveStopLoss parseFloat api ([], s))) of
      [] \<Rightarrow> loadedData (snd (handleSaveStopLoss parseFloat api ([], s))) = loadedData s
    | c # cs \<Rightarrow> isMutation c \<and>
        (if succeeded api c
         then cs = readSet \<and> loadedData (snd (handleSaveStopLoss parseFloat api ([], s))) =
                loadedData (snd (loadData api ([], s)))
         else cs = [] \<and> loadedData (snd (handleSaveStopLoss parseFloat api ([], s))) =
                loadedData s))"
proof -
  show ?thesis
    using handleBuy_data [of api s] handleSell_data [of api s]
      handleSaveStopLoss_data [of parseFloat api s]
    by (simp add: handleBuy_calls handleSell_calls handleSaveStopLoss_calls Let_def
        split: list.splits)
qed

text \<open>A filled sell order on the sample backend is followed by the six read calls.\<close>

theorem reload_after_successful_mutation_witness:
  "api_calls (fst (handleSell sampleApi ([], orderFormState))) =
     PlaceOrder \<lparr>PlaceOrderRequest.stockCode = ''AAPL'', orderType = Sell,
                 quantity = Finite 100, price = None\<rparr> # readSet
   \<and> succeeded sampleApi (PlaceOrder \<lparr>PlaceOrderRequest.stockCode = ''AAPL'',
        orderType = Sell, quantity = Finite 100, price = None\<rparr>)
   \<and> loadedData (snd (handleSell sampleApi ([], orderFormState))) =
       (Some sampleAccount, [], [], Map.empty, [], Some sampleMetrics)"
proof -
  have calls: "api_calls (fst (handleSell sampleApi ([], orderFormState))) =
     PlaceOrder \<lparr>PlaceOrderRequest.stockCode = ''AAPL'', orderType = Sell,
                 quantity = Finite 100, price = None\<rparr> # readSet"
    by (simp add: handleSell_calls sample_simps)
  have filled: "succeeded sampleApi (PlaceOrder \<lparr>PlaceOrderRequest.stockCode = ''AAPL'',
        orderType = Sell, quantity = Finite 100, price = None\<rparr>)"
    by (simp add: sampleApi_def)
  from reload_after_successful_mutation [of sampleApi orderFormState "\<lambda>x. NaN"] calls filled
  have "loadedData (snd (handleSell sampleApi ([], orderFormState))) =
       loadedData (snd (loadData sampleApi ([], orderFormState)))"
    by simp
  with calls filled show ?thesis
    by (simp add: loadedData_sampleApi)
qed

text \<open>
  Claim C6. Applying the Data Mapper twice gives what applying it once gives, for every
  value, so for every snake_case-keyed JSON value.
\<close>

theorem toCamelCase_idempotent: "toCamelCase (toCamelCase v) = toCamelCase v"
  by (induction v rule: toCamelCase.induct) (auto simp add: snakeToCamel_idem)

text \<open>
  Claim C7. Called with no argument, \<open>getOrders\<close> sends \<open>GET /api/v1/trading/orders\<close>
  with the query parameter \<open>limit\<close> equal to 50.
\<close>

theorem getOrders_default_limit:
  "fst (getOrders http None) =
     \<lparr>verb = GET, url = ''/api/v1/trading/orders'',
      params = [(''limit'', JNum (Finite 50))], body = None\<rparr>"
  by (simp add: getOrders_def await_response_def Let_def)

text \<open>
  Claim C8. For every stock code: when the request of \<open>getStopLoss\<close> is answered with
  the envelope \<open>{stop_loss: null}\<close>, \<open>getStopLoss\<close> fulfils with \<open>null\<close> and raises
  nothing; when the fetch fails, \<open>getStopLoss\<close> rejects with the error of the
  transport. So "no rule configured" (a value) is told apart from a fetch failure (a
  rejection).
\<close>

theorem getStopLoss_null_envelope:
  "(http (fst (getStopLoss http code)) = Inr (JObj [(''stop_loss'', JNull)]) \<longrightarrow>
      snd (getStopLoss http code) = Inr JNull)
   \<and> (http (fst (getStopLoss http code)) = Inl e \<longrightarrow>
      snd (getStopLoss http code) = Inl e)"
  by (simp add: getStopLoss_def await_response_def snakeToCamel_stop_loss)

text \<open>
  The transport that answers with the envelope gives \<open>null\<close>; the transport that
  rejects makes \<open>getStopLoss\<close> reject.
\<close>

theorem getStopLoss_null_envelope_witness:
  "nullStopLossTransport (fst (getStopLoss nullStopLossTransport ''AAPL'')) =
     Inr (JObj [(''stop_loss'', JNull)])
   \<and> snd (getStopLoss nullStopLossTransport ''AAPL'') = Inr JNull
   \<and> offlineTransport (fst (getStopLoss offlineTransport ''AAPL'')) =
     Inl (RequestFailed JUndefined)
   \<and> snd (getStopLoss offlineTransport ''AAPL'') = Inl (RequestFailed JUndefined)"
proof -
  have answered: "nullStopLossTransport (fst (getStopLoss nullStopLossTransport ''AAPL'')) =
     Inr (JObj [(''stop_loss'', JNull)])"
    by (simp add: nullStopLossTransport_def)
  have failed: "offlineTransport (fst (getStopLoss offlineTransport ''AAPL'')) =
     Inl (RequestFailed JUndefined)"
    by (simp add: offlineTransport_def)
  show ?thesis
    using answered failed
      getStopLoss_null_envelope [of nullStopLossTransport "''AAPL''" "RequestFailed JUndefined"]
      getStopLoss_null_envelope [of offlineTransport "''AAPL''" "RequestFailed JUndefined"]
    by simp
qed

text \<open>
  Claim C9. When the save handler is invoked on a selected stock code with the four
  optional inputs (take-profit price, take-profit percent, stop-loss price, stop-loss
  percent) empty, its one mutating call is \<open>deleteStopLoss\<close> for the selected stock
  code: \<open>setStopLoss\<close> is not called. In every run of the handler, \<open>setStopLoss\<close> is
  never called with a request that carries none of the four optional fields.
\<close>

theorem save_all_empty_deletes:
  "(selectedStockCode s \<noteq> [] \<and> view_state.takeProfitPrice s = []
        \<and> view_state.takeProfitPct s = [] \<and> view_state.stopLossPrice s = []
        \<and> view_state.stopLossPct s = [] \<longrightarrow>
      filter isMutation (api_calls (fst (handleSaveStopLoss parseFloat api ([], s)))) =
        [DeleteStopLoss (selectedStockCode s)])
   \<and> filter emptySetStopLoss
        (api_calls (fst (handleSaveStopLoss parseFloat api ([], s)))) = []"
  by (simp add: handleSaveStopLoss_calls Let_def readSet_def)

text \<open>The dialog open on \<open>AAPL\<close> with its four inputs empty: the handler deletes.\<close>

theorem save_all_empty_deletes_witness:
  "selectedStockCode clearedModalState \<noteq> []
   \<and> view_state.takeProfitPrice clearedModalState = []
   \<and> view_state.takeProfitPct clearedModalState = []
   \<and> view_state.stopLossPrice clearedModalState = []
   \<and> view_state.stopLossPct clearedModalState = []
   \<and> filter isMutation
       (api_calls (fst (handleSaveStopLoss (\<lambda>x. NaN) sampleApi ([], clearedModalState)))) =
     [DeleteStopLoss ''AAPL'']"
  using save_all_empty_deletes [of clearedModalState "\<lambda>x. NaN" sampleApi]
  by (simp add: sample_simps)




end
